theory Spec2Isabelle
  imports Complex_Main "HOL-Library.AList" "HOL-Library.Product_Lexorder"
begin

section \<open>Common conventions\<close>

text \<open>
  Python floats are modelled by real numbers (exact arithmetic); the special float values
  that the metrics code produces on purpose appear explicitly where they matter.
  Python exceptions are values of \<open>py_error\<close>; a function that may raise returns
  \<open>py_error + 'a\<close>. A Python \<open>dict\<close> whose key order matters is an association
  list that is only ever extended by \<open>AList.update\<close> (replace in place, or append),
  which is the insertion-order behaviour of \<open>dict\<close>.
\<close>

datatype py_error = ValueError string | IndexError | KeyError string | TypeError | ZeroDivisionError

fun join :: "string \<Rightarrow> string list \<Rightarrow> string" where
  "join sep [] = []"
| "join sep [x] = x"
| "join sep (x # y # ys) = x @ sep @ join sep (y # ys)"

text \<open>\<open>{**d, **p}\<close>: the entries of \<open>d\<close>, then each entry of \<open>p\<close> written over them.\<close>

definition dict_merge :: "('k \<times> 'v) list \<Rightarrow> ('k \<times> 'v) list \<Rightarrow> ('k \<times> 'v) list" where
  "dict_merge d p = foldl (\<lambda>acc kv. AList.update (fst kv) (snd kv) acc) d p"

definition dict_has :: "('k \<times> 'v) list \<Rightarrow> 'k \<Rightarrow> bool" where
  "dict_has d k = (map_of d k \<noteq> None)"

text \<open>Sequencing of two steps of which the first may raise.\<close>

definition bind_err :: "py_error + 'a \<Rightarrow> ('a \<Rightarrow> py_error + 'b) \<Rightarrow> py_error + 'b" where
  "bind_err m f = (case m of Inl e \<Rightarrow> Inl e | Inr x \<Rightarrow> f x)"

section \<open>core/strategy.py: BaseStrategy\<close>

text \<open>
  An instance of a \<open>BaseStrategy\<close> subclass. The class attribute
  \<open>default_parameters\<close> is an argument of the functions below, since each subclass
  sets its own.
\<close>

record 'v BaseStrategy =
  symbol :: string
  parameters :: "(string \<times> 'v) list"

text \<open>\<open>BaseStrategy.get_required_parameters\<close>, not overridden.\<close>

definition get_required_parameters :: "(string \<times> 'v) list \<Rightarrow> string list" where
  "get_required_parameters default_parameters = map fst default_parameters"

text \<open>\<open>BaseStrategy.validate_parameters\<close>, given the required names.\<close>

definition validate_parameters :: "string list \<Rightarrow> (string \<times> 'v) list \<Rightarrow> py_error + unit" where
  "validate_parameters required_params params =
     (if \<not> list_all (dict_has params) required_params
      then Inl (ValueError (''Missing required parameters: '' @
                  join '', '' (filter (\<lambda>p. \<not> dict_has params p) required_params)))
      else Inr ())"

text \<open>
  \<open>BaseStrategy.__init__\<close>: \<open>params or {}\<close> turns \<open>None\<close> (and the empty
  dict) into the empty dict.
\<close>

definition BaseStrategy_init ::
  "(string \<times> 'v) list \<Rightarrow> string \<Rightarrow> (string \<times> 'v) list option \<Rightarrow> py_error + 'v BaseStrategy" where
  "BaseStrategy_init default_parameters sy params =
     (let ps = dict_merge default_parameters (case params of None \<Rightarrow> [] | Some p \<Rightarrow> p)
      in case validate_parameters (get_required_parameters default_parameters) ps of
           Inl e \<Rightarrow> Inl e
         | Inr _ \<Rightarrow> Inr \<lparr>symbol = sy, parameters = ps\<rparr>)"

section \<open>core/strategy.py: StrategyRegistry\<close>

text \<open>
  A class object handed to \<open>register\<close>: its \<open>__name__\<close>, whether it inherits from
  \<open>BaseStrategy\<close>, and its implementation (any value that tells two classes apart).
\<close>

record 'i strategy_class =
  class_name :: string
  inherits_BaseStrategy :: bool
  implementation :: 'i

type_synonym 'i registry = "string \<rightharpoonup> 'i strategy_class"

text \<open>
  \<open>StrategyRegistry.register\<close>: the new registry and the returned class, or the
  error that is logged and raised again.
\<close>

definition register :: "'i registry \<Rightarrow> 'i strategy_class \<Rightarrow> py_error + ('i registry \<times> 'i strategy_class)" where
  "register strategies strategy_class =
     (if \<not> inherits_BaseStrategy strategy_class
      then Inl (ValueError (class_name strategy_class @ '' must inherit from BaseStrategy''))
      else Inr (strategies(class_name strategy_class \<mapsto> strategy_class), strategy_class))"

text \<open>\<open>StrategyRegistry.get_strategy\<close>.\<close>

definition get_strategy :: "'i registry \<Rightarrow> string \<Rightarrow> py_error + 'i strategy_class" where
  "get_strategy strategies name =
     (case strategies name of
        None \<Rightarrow> Inl (ValueError (''Strategy not found: '' @ name))
      | Some c \<Rightarrow> Inr c)"

section \<open>strategies/grid_hedge_strategy.py: GridLevel\<close>

text \<open>
  Level objects are shared by reference (a level and its partner point at each other),
  so they live in a heap, a list of objects indexed by address; \<open>paired_level\<close> holds
  the partner's address. Field names that clash with HOL constants or with fields of other
  records carry a suffix. The level \<open>type\<close> is one of the two strings the code writes.
\<close>

datatype side = BUY | SELL

record GridLevel =
  price :: real
  type_lv :: side
  size_lv :: real
  paired_level :: "nat option"
  order_id :: "nat option"
  is_active :: bool
  is_filled :: bool
  fill_price :: "real option"
  fill_time :: "nat option"
  profit :: real

definition GridLevel_init :: "real \<Rightarrow> side \<Rightarrow> real \<Rightarrow> GridLevel" where
  "GridLevel_init p t s =
     \<lparr>price = p, type_lv = t, size_lv = s, paired_level = None, order_id = None,
      is_active = True, is_filled = False, fill_price = None, fill_time = None, profit = 0\<rparr>"

text \<open>\<open>GridLevel.pair_with\<close>: two assignments, in the source's order.\<close>

definition pair_with :: "nat \<Rightarrow> nat \<Rightarrow> GridLevel list \<Rightarrow> GridLevel list" where
  "pair_with self other_level h =
     (let h1 = h[self := (h ! self)\<lparr>paired_level := Some other_level\<rparr>]
      in h1[other_level := (h1 ! other_level)\<lparr>paired_level := Some self\<rparr>])"

section \<open>strategies/grid_hedge_strategy.py: GridHedgeStrategy\<close>

text \<open>
  The entries of \<open>self._params\<close> that the methods below read. The dict is built by the
  base class in \<open>strategies/base_strategy.py\<close>, which is not among the sources, so it
  is taken as given; \<open>grid_levels\<close> is the integer that \<open>range\<close> receives.
\<close>

record strategy_params =
  grid_levels_p :: int
  grid_spacing_p :: real
  base_order_size_p :: real
  size_multiplier_p :: real
  min_profit_p :: real
  max_loss_pct_p :: real

text \<open>
  \<open>next((l for l in reversed(levels) if l.type == 'BUY' and l.paired_level is None), None)\<close>:
  the address of the last such level.
\<close>

definition next_unpaired_buy :: "GridLevel list \<Rightarrow> nat option" where
  "next_unpaired_buy levels =
     List.find (\<lambda>j. type_lv (levels ! j) = BUY \<and> paired_level (levels ! j) = None)
       (rev [0..<length levels])"

text \<open>
  The body of the loop of \<open>calculate_grid_levels\<close> for index \<open>i\<close>. The levels built
  by one call are the heap of that call: a level's address is its position in \<open>levels\<close>.
\<close>

definition grid_level_step :: "strategy_params \<Rightarrow> real \<Rightarrow> GridLevel list \<Rightarrow> nat \<Rightarrow> GridLevel list" where
  "grid_level_step ps current_price levels i =
     (let price_range = current_price * grid_spacing_p ps * real_of_int (grid_levels_p ps);
          min_price = current_price - price_range / 2;
          pr = min_price + real i * current_price * grid_spacing_p ps;
          sz = base_order_size_p ps * (1 + real (i div 2) * (size_multiplier_p ps - 1));
          levels1 = (if pr < current_price then levels @ [GridLevel_init pr BUY sz] else levels)
      in if pr > current_price
         then (let sell_level = length levels1;
                   levels2 = levels1 @ [GridLevel_init pr SELL sz]
               in if length levels2 \<ge> 2
                  then (case next_unpaired_buy levels2 of
                          None \<Rightarrow> levels2
                        | Some buy_level \<Rightarrow> pair_with buy_level sell_level levels2)
                  else levels2)
         else levels1)"

definition calculate_grid_levels :: "strategy_params \<Rightarrow> real \<Rightarrow> GridLevel list" where
  "calculate_grid_levels ps current_price =
     foldl (grid_level_step ps current_price) [] [0..<nat (grid_levels_p ps * 2)]"

text \<open>The grid of the defaults of \<open>get_parameters\<close>, used in the examples below.\<close>

definition default_params :: strategy_params where
  "default_params =
     \<lparr>grid_levels_p = 5, grid_spacing_p = 1/100, base_order_size_p = 1/100,
      size_multiplier_p = 1, min_profit_p = 5/1000, max_loss_pct_p = 5/100\<rparr>"

text \<open>Pairing symmetry of a heap of levels, as a checkable predicate.\<close>

definition paired_ok :: "GridLevel list \<Rightarrow> nat \<Rightarrow> bool" where
  "paired_ok h a =
     (case paired_level (h ! a) of
        None \<Rightarrow> True
      | Some b \<Rightarrow> b < length h \<and> paired_level (h ! b) = Some a \<and> type_lv (h ! a) \<noteq> type_lv (h ! b))"

definition pairing_symmetric :: "GridLevel list \<Rightarrow> bool" where
  "pairing_symmetric h = list_all (paired_ok h) [0..<length h]"

text \<open>
  The strategy object: its parameters, the heap of its level objects, and
  \<open>self.grid_levels\<close> as the list of the addresses it holds. Method names lose their
  leading underscore. Writes to the strategy's log file are not modelled.
\<close>

record close_record =
  open_time :: nat
  close_time :: nat
  buy_price :: "real option"
  sell_price :: "real option"
  size_cr :: real
  profit_cr :: real

record GridHedgeStrategy =
  params :: strategy_params
  heap :: "GridLevel list"
  grid_levels :: "nat list"
  support_levels :: "real list"
  resistance_levels :: "real list"
  total_profit :: real
  trades_history :: "close_record list"

text \<open>
  \<open>_calculate_pair_profit\<close>; its \<open>current_price\<close> argument is not read. Arithmetic on
  a fill price that is still \<open>None\<close> raises, and so does a zero buy price.
\<close>

definition calculate_pair_profit :: "GridLevel list \<Rightarrow> nat \<Rightarrow> py_error + real" where
  "calculate_pair_profit h a =
     (let level = h ! a
      in case paired_level level of
           None \<Rightarrow> Inr 0
         | Some b \<Rightarrow>
             if \<not> is_filled level \<or> \<not> is_filled (h ! b) then Inr 0
             else (case (if type_lv level = BUY
                         then (fill_price level, fill_price (h ! b))
                         else (fill_price (h ! b), fill_price level)) of
                     (Some bp, Some sp) \<Rightarrow>
                       if bp = 0 then Inl ZeroDivisionError else Inr ((sp - bp) / bp)
                   | _ \<Rightarrow> Inl TypeError))"

text \<open>\<open>_is_paired_trade_profitable\<close>.\<close>

definition is_paired_trade_profitable :: "GridLevel list \<Rightarrow> nat \<Rightarrow> py_error + bool" where
  "is_paired_trade_profitable h a =
     (case paired_level (h ! a) of
        None \<Rightarrow> Inr False
      | Some b \<Rightarrow>
          if \<not> is_filled (h ! b) then Inr False
          else bind_err (calculate_pair_profit h a) (\<lambda>pf. Inr (pf > 0)))"

text \<open>
  \<open>_close_position_pair\<close>; \<open>now\<close> is the reading of the clock that becomes
  \<open>close_time\<close>. \<open>min\<close> of the fill times raises when one of them is \<open>None\<close>.
\<close>

definition close_position_pair :: "nat \<Rightarrow> GridHedgeStrategy \<Rightarrow> nat \<Rightarrow> py_error + GridHedgeStrategy" where
  "close_position_pair now st a =
     (case paired_level (heap st ! a) of
        None \<Rightarrow> Inr st
      | Some b \<Rightarrow>
          bind_err (calculate_pair_profit (heap st) a) (\<lambda>pf.
            let level = heap st ! a; partner = heap st ! b
            in case (fill_time level, fill_time partner) of
                 (Some t1, Some t2) \<Rightarrow>
                   (let trade_record =
                          \<lparr>open_time = min t1 t2, close_time = now,
                           buy_price = (if type_lv level = BUY then fill_price level else fill_price partner),
                           sell_price = (if type_lv level = SELL then fill_price level else fill_price partner),
                           size_cr = size_lv level, profit_cr = pf\<rparr>;
                        h1 = (heap st)[a := (heap st ! a)\<lparr>is_active := False\<rparr>];
                        h2 = h1[b := (h1 ! b)\<lparr>is_active := False\<rparr>]
                    in Inr (st\<lparr>total_profit := total_profit st + pf,
                               trades_history := trades_history st @ [trade_record],
                               heap := h2\<rparr>))
               | _ \<Rightarrow> Inl TypeError))"

text \<open>The body of the loop of \<open>manage_positions\<close> for the level at address \<open>a\<close>.\<close>

definition manage_level :: "real \<Rightarrow> nat \<Rightarrow> GridHedgeStrategy \<Rightarrow> nat \<Rightarrow> py_error + GridHedgeStrategy" where
  "manage_level current_price now st a =
     (let level = heap st ! a
      in if \<not> is_filled level then Inr st
         else (case paired_level level of
                 None \<Rightarrow> Inr st
               | Some b \<Rightarrow>
                   if \<not> is_filled (heap st ! b) then Inr st
                   else bind_err (calculate_pair_profit (heap st) a) (\<lambda>pf.
                          if pf \<ge> min_profit_p (params st) then close_position_pair now st a
                          else if pf \<le> - max_loss_pct_p (params st)
                          then bind_err (is_paired_trade_profitable (heap st) a) (\<lambda>ok.
                                 if ok then close_position_pair now st a else Inr st)
                          else Inr st)))"

definition manage_positions :: "real \<Rightarrow> nat \<Rightarrow> GridHedgeStrategy \<Rightarrow> py_error + GridHedgeStrategy" where
  "manage_positions current_price now st =
     foldl (\<lambda>r a. bind_err r (\<lambda>s. manage_level current_price now s a)) (Inr st) (grid_levels st)"

text \<open>\<open>_find_peaks\<close> and \<open>update_support_resistance\<close> (on the high and low columns).\<close>

definition find_peaks :: "real list \<Rightarrow> nat \<Rightarrow> real list" where
  "find_peaks data window =
     map (\<lambda>i. data ! i)
       (filter (\<lambda>i. list_all (\<lambda>x. data ! i > x) (take window (drop (i - window) data)) \<and>
                     list_all (\<lambda>x. data ! i > x) (take window (drop (i + 1) data)))
          [window..<length data - window])"

definition update_support_resistance :: "GridHedgeStrategy \<Rightarrow> real list \<Rightarrow> real list \<Rightarrow> GridHedgeStrategy" where
  "update_support_resistance st highs lows =
     (if length highs < 20 then st
      else st\<lparr>resistance_levels := sort (find_peaks highs 5),
              support_levels := sort (map uminus (find_peaks (map uminus lows) 5))\<rparr>)"

text \<open>\<open>should_adjust_grid\<close>.\<close>

definition should_adjust_grid :: "GridHedgeStrategy \<Rightarrow> real \<Rightarrow> bool" where
  "should_adjust_grid st current_price =
     (case map (\<lambda>a. price (heap st ! a)) (grid_levels st) of
        [] \<Rightarrow> True
      | p # ps \<Rightarrow>
          (let min_price = fold min ps p;
               max_price = fold max ps p;
               price_range = max_price - min_price;
               buffer = price_range * (1/10)
           in current_price < min_price + buffer \<or> current_price > max_price - buffer))"

text \<open>
  \<open>adjust_grid\<close>: the new level objects are allocated at the end of the heap, so the
  addresses inside them move by the old heap size; the filled levels that were in the grid
  stay in it, in front.
\<close>

definition adjust_grid :: "GridHedgeStrategy \<Rightarrow> real \<Rightarrow> GridHedgeStrategy" where
  "adjust_grid st current_price =
     (let new_levels = calculate_grid_levels (params st) current_price;
          off = length (heap st);
          allocated = map (\<lambda>l. l\<lparr>paired_level := map_option (\<lambda>b. b + off) (paired_level l)\<rparr>) new_levels;
          active_levels = filter (\<lambda>a. is_filled (heap st ! a)) (grid_levels st)
      in st\<lparr>heap := heap st @ allocated,
             grid_levels := active_levels @ [off..<off + length new_levels]\<rparr>)"

section \<open>backtesting/grid_backtester.py: GridBacktester\<close>

record bar =
  timestamp :: nat
  high :: real
  low :: real
  close :: real

record trade =
  timestamp_tr :: nat
  type_tr :: side
  price_tr :: real
  size_tr :: real
  commission_tr :: real
  value_tr :: real

record equity_point =
  timestamp_eq :: nat
  equity :: real
  price_eq :: real

datatype log_record = Warning_insufficient_capital real | Info_executed side real real

text \<open>
  The backtester object. \<open>logged\<close> is what it has written to its logger; the list
  \<open>positions\<close>, which is only ever reset, is left out.
\<close>

record GridBacktester =
  initial_capital :: real
  current_capital :: real
  commission_rate :: real
  strategy :: GridHedgeStrategy
  equity_curve :: "equity_point list"
  trades :: "trade list"
  logged :: "log_record list"

text \<open>
  The float operations that \<open>_execute_trade\<close> performs: product, sum and difference,
  each a function of its two operands. Whatever the rounding of the machine is, it is one
  such triple; \<open>exact_arith\<close> is the one without rounding.
\<close>

record arith =
  fl_mul :: "real \<Rightarrow> real \<Rightarrow> real"
  fl_add :: "real \<Rightarrow> real \<Rightarrow> real"
  fl_sub :: "real \<Rightarrow> real \<Rightarrow> real"

definition exact_arith :: arith where
  "exact_arith = \<lparr>fl_mul = (\<lambda>x y. x * y), fl_add = (\<lambda>x y. x + y), fl_sub = (\<lambda>x y. x - y)\<rparr>"

text \<open>
  \<open>_execute_trade\<close> on the level at address \<open>a\<close>, over the arithmetic \<open>ar\<close>;
  the two updates of the capital are applied one after the other, as in the source.
\<close>

definition execute_trade_fl :: "arith \<Rightarrow> GridBacktester \<Rightarrow> nat \<Rightarrow> real \<Rightarrow> nat \<Rightarrow> GridBacktester" where
  "execute_trade_fl ar gb a pr ts =
     (let level = heap (strategy gb) ! a;
          position_value = fl_mul ar (size_lv level) pr;
          commission = fl_mul ar position_value (commission_rate gb)
      in if fl_add ar position_value commission > current_capital gb
         then gb\<lparr>logged := logged gb @ [Warning_insufficient_capital pr]\<rparr>
         else gb\<lparr>trades := trades gb @
                    [\<lparr>timestamp_tr = ts, type_tr = type_lv level, price_tr = pr,
                      size_tr = size_lv level, commission_tr = commission,
                      value_tr = position_value\<rparr>],
                 current_capital :=
                    (if type_lv level = BUY
                     then fl_sub ar (fl_sub ar (current_capital gb) commission) position_value
                     else fl_add ar (fl_sub ar (current_capital gb) commission) position_value),
                 strategy := (strategy gb)\<lparr>heap := (heap (strategy gb))
                    [a := level\<lparr>is_filled := True, fill_price := Some pr, fill_time := Some ts\<rparr>]\<rparr>,
                 logged := logged gb @ [Info_executed (type_lv level) pr (size_lv level)]\<rparr>)"

text \<open>\<open>_execute_trade\<close> in exact arithmetic, which the simulation below runs on.\<close>

definition execute_trade :: "GridBacktester \<Rightarrow> nat \<Rightarrow> real \<Rightarrow> nat \<Rightarrow> GridBacktester" where
  "execute_trade gb a pr ts = execute_trade_fl exact_arith gb a pr ts"

text \<open>\<open>_process_grid_levels\<close>.\<close>

definition process_level :: "real \<Rightarrow> nat \<Rightarrow> GridBacktester \<Rightarrow> nat \<Rightarrow> GridBacktester" where
  "process_level current_price ts gb a =
     (let level = heap (strategy gb) ! a
      in if \<not> is_active level \<or> is_filled level then gb
         else if (type_lv level = BUY \<and> current_price \<le> price level) \<or>
                 (type_lv level = SELL \<and> current_price \<ge> price level)
         then execute_trade gb a current_price ts
         else gb)"

definition process_grid_levels :: "GridBacktester \<Rightarrow> real \<Rightarrow> nat \<Rightarrow> GridBacktester" where
  "process_grid_levels gb current_price ts =
     foldl (process_level current_price ts) gb (grid_levels (strategy gb))"

text \<open>
  One round of the loop of \<open>run_backtest\<close>, for bar \<open>i\<close>. \<open>now i\<close> is the clock
  reading during that round. \<open>analyze_market_condition\<close> is left out: it changes nothing
  and its result is not read.
\<close>

definition run_bar :: "(nat \<Rightarrow> nat) \<Rightarrow> bar list \<Rightarrow> GridBacktester \<Rightarrow> nat \<Rightarrow> py_error + GridBacktester" where
  "run_bar now data gb i =
     (let current_bar = data ! i;
          current_price = close current_bar;
          ts = timestamp current_bar
      in bind_err
           (if i \<ge> 20
            then (let lookback_data = take (i + 1 - (i - 50)) (drop (i - 50) data);
                      st1 = update_support_resistance (strategy gb)
                              (map high lookback_data) (map low lookback_data);
                      st2 = (if should_adjust_grid st1 current_price
                             then adjust_grid st1 current_price else st1);
                      gb2 = process_grid_levels (gb\<lparr>strategy := st2\<rparr>) current_price ts
                  in bind_err (manage_positions current_price (now i) (strategy gb2))
                       (\<lambda>st3. Inr (gb2\<lparr>strategy := st3\<rparr>)))
            else Inr gb)
           (\<lambda>gb'. Inr (gb'\<lparr>equity_curve := equity_curve gb' @
                          [\<lparr>timestamp_eq = ts, equity = current_capital gb',
                            price_eq = current_price\<rparr>]\<rparr>)))"

text \<open>
  \<open>GridBacktester.run_backtest\<close>, up to the call that turns the final state into the
  metrics dict: the state after the last bar, or the error that ended the run.
\<close>

definition run_backtest :: "(nat \<Rightarrow> nat) \<Rightarrow> GridBacktester \<Rightarrow> bar list \<Rightarrow> py_error + GridBacktester" where
  "run_backtest now gb data =
     foldl (\<lambda>r i. bind_err r (\<lambda>g. run_bar now data g i))
       (Inr (gb\<lparr>current_capital := initial_capital gb, equity_curve := [], trades := []\<rparr>))
       [0..<length data]"

text \<open>
  What the specification calls the unrealized value of the open positions of a grid run:
  the filled, unclosed levels of the grid, marked to a close price (a SELL level is short).
\<close>

definition open_positions_value :: "GridHedgeStrategy \<Rightarrow> real \<Rightarrow> real" where
  "open_positions_value st close_price =
     sum_list (map (\<lambda>a. let l = heap st ! a
                         in if is_filled l \<and> is_active l
                            then (if type_lv l = BUY then size_lv l * close_price
                                  else - (size_lv l * close_price))
                            else 0) (grid_levels st))"

definition equity_and_marked_value :: "real \<Rightarrow> GridBacktester \<Rightarrow> real \<times> real" where
  "equity_and_marked_value close_price g =
     (equity (last (equity_curve g)),
      current_capital g + open_positions_value (strategy g) close_price)"

section \<open>core/backtester.py: Backtester\<close>

text \<open>
  A row of the prepared frame (timestamp, close and signal columns), a trade dict and an
  equity point of this backtester, and the backtester object; of \<open>strategy_params\<close>
  only the optional \<open>size_multiplier\<close> entry is read by the simulation.
\<close>

record row =
  timestamp_r :: nat
  close_r :: real
  signal :: real

record bt_trade =
  timestamp_bt :: nat
  type_bt :: side
  price_bt :: real
  size_bt :: real
  value_bt :: real

record bt_equity_point =
  timestamp_be :: nat
  equity_be :: real

record Backtester =
  initial_capital_bt :: real
  size_multiplier_bt :: "real option"
  position :: real
  capital :: real
  trades_bt :: "bt_trade list"

text \<open>\<open>Backtester.execute_trade\<close>: the new state and the trade dict or \<open>None\<close>.\<close>

definition Backtester_execute_trade ::
  "Backtester \<Rightarrow> nat \<Rightarrow> real \<Rightarrow> real \<Rightarrow> Backtester \<times> bt_trade option" where
  "Backtester_execute_trade bt ts pr sg =
     (if sg = 0 \<or> (sg > 0 \<and> position bt > 0) \<or> (sg < 0 \<and> position bt < 0) then (bt, None)
      else (let size0 = \<bar>capital bt * (2/100) / pr\<bar>;
                sz = (case size_multiplier_bt bt of None \<Rightarrow> size0 | Some m \<Rightarrow> size0 * m);
                trade_value = (if sg > 0 then - sz * pr else sz * pr)
            in (bt\<lparr>capital := capital bt + trade_value,
                    position := (if sg > 0 then sz else - sz)\<rparr>,
                Some \<lparr>timestamp_bt = ts, type_bt = (if sg > 0 then BUY else SELL),
                      price_bt = pr, size_bt = sz, value_bt = trade_value\<rparr>)))"

text \<open>One round of the simulation loop of \<open>Backtester.run_backtest\<close>.\<close>

definition Backtester_step ::
  "Backtester \<times> bt_equity_point list \<Rightarrow> row \<Rightarrow> Backtester \<times> bt_equity_point list" where
  "Backtester_step s r =
     (let bt = fst s;
          bt1 = (if signal r \<noteq> 0
                 then (case Backtester_execute_trade bt (timestamp_r r) (close_r r) (signal r) of
                         (bt', None) \<Rightarrow> bt'
                       | (bt', Some t) \<Rightarrow> bt'\<lparr>trades_bt := trades_bt bt' @ [t]\<rparr>)
                 else bt);
          current_equity = capital bt1 + position bt1 * close_r r
      in (bt1, snd s @ [\<lparr>timestamp_be = timestamp_r r, equity_be = current_equity\<rparr>]))"

text \<open>
  The simulation of \<open>Backtester.run_backtest\<close> on the frame that \<open>prepare_data\<close> and
  the strategy's \<open>generate_signals\<close> return: the reset, then the loop over the rows.
\<close>

definition Backtester_simulate :: "Backtester \<Rightarrow> row list \<Rightarrow> Backtester \<times> bt_equity_point list" where
  "Backtester_simulate bt rows =
     foldl Backtester_step
       (bt\<lparr>trades_bt := [], position := 0, capital := initial_capital_bt bt\<rparr>, []) rows"

section \<open>analysis/metrics.py: calculate_advanced_metrics\<close>

text \<open>
  The values of a float column: a finite number, one of the two infinities, or NaN. Only the
  operations the metrics use are defined, each with the IEEE result for the special
  values; finite results are exact, and the sign of a zero is not tracked.
\<close>

datatype fval = Fin real | PInf | NInf | NaN

definition rdiv :: "real \<Rightarrow> real \<Rightarrow> fval" where
  "rdiv a b = (if b \<noteq> 0 then Fin (a / b)
               else if a > 0 then PInf else if a < 0 then NInf else NaN)"

fun fadd_r :: "fval \<Rightarrow> real \<Rightarrow> fval" where
  "fadd_r (Fin x) r = Fin (x + r)"
| "fadd_r v r = v"

fun fmul_r :: "fval \<Rightarrow> real \<Rightarrow> fval" where
  "fmul_r (Fin x) r = Fin (x * r)"
| "fmul_r PInf r = (if r > 0 then PInf else if r < 0 then NInf else NaN)"
| "fmul_r NInf r = (if r > 0 then NInf else if r < 0 then PInf else NaN)"
| "fmul_r NaN r = NaN"

fun fdiv :: "fval \<Rightarrow> fval \<Rightarrow> fval" where
  "fdiv NaN v = NaN"
| "fdiv u NaN = NaN"
| "fdiv (Fin a) (Fin b) = rdiv a b"
| "fdiv (Fin a) v = Fin 0"
| "fdiv PInf (Fin b) = (if b \<ge> 0 then PInf else NInf)"
| "fdiv NInf (Fin b) = (if b \<ge> 0 then NInf else PInf)"
| "fdiv u v = NaN"

fun fabs :: "fval \<Rightarrow> fval" where
  "fabs (Fin x) = Fin \<bar>x\<bar>"
| "fabs NaN = NaN"
| "fabs v = PInf"

text \<open>\<open>v > 0\<close>, which is false for NaN.\<close>

fun fpos :: "fval \<Rightarrow> bool" where
  "fpos (Fin x) = (x > 0)"
| "fpos PInf = True"
| "fpos v = False"

text \<open>\<open>u \<le> v\<close> on values that are not NaN.\<close>

fun fle :: "fval \<Rightarrow> fval \<Rightarrow> bool" where
  "fle NInf v = True"
| "fle u PInf = True"
| "fle (Fin a) (Fin b) = (a \<le> b)"
| "fle u v = False"

definition fmin :: "fval \<Rightarrow> fval \<Rightarrow> fval" where
  "fmin u v = (if fle u v then u else v)"

definition fmax :: "fval \<Rightarrow> fval \<Rightarrow> fval" where
  "fmax u v = (if fle u v then v else u)"

text \<open>
  \<open>b ** e\<close> on floats for an exponent \<open>e > 0\<close> (the only use has
  \<open>e = ANNUALIZATION_FACTOR / len(returns)\<close>): a negative base gives NaN unless the
  exponent is a whole number.
\<close>

definition whole :: "real \<Rightarrow> bool" where
  "whole e = (e = of_int \<lfloor>e\<rfloor>)"

fun float_pow :: "fval \<Rightarrow> real \<Rightarrow> fval" where
  "float_pow (Fin x) e =
     (if x > 0 then Fin (x powr e)
      else if x = 0 then Fin 0
      else if whole e then Fin (x ^ nat \<lfloor>e\<rfloor>) else NaN)"
| "float_pow PInf e = PInf"
| "float_pow NInf e = (if whole e \<and> odd \<lfloor>e\<rfloor> then NInf else PInf)"
| "float_pow NaN e = NaN"

text \<open>
  \<open>Series.pct_change\<close>: NaN in front, then each value over the one before it, minus one.
\<close>

fun pct_change_from :: "real \<Rightarrow> real list \<Rightarrow> fval list" where
  "pct_change_from prev [] = []"
| "pct_change_from prev (x # xs) = fadd_r (rdiv x prev) (- 1) # pct_change_from x xs"

definition pct_change :: "real list \<Rightarrow> fval list" where
  "pct_change xs = (case xs of [] \<Rightarrow> [] | x # rest \<Rightarrow> NaN # pct_change_from x rest)"

text \<open>
  \<open>Series.std\<close> (sample standard deviation, NaN entries skipped): NaN when fewer than
  two entries remain or when one of them is infinite.
\<close>

definition finite_values :: "fval list \<Rightarrow> real list" where
  "finite_values vs = concat (map (\<lambda>v. case v of Fin x \<Rightarrow> [x] | _ \<Rightarrow> []) vs)"

definition series_std :: "fval list \<Rightarrow> fval" where
  "series_std vs =
     (let valid = filter (\<lambda>v. v \<noteq> NaN) vs;
          xs = finite_values valid;
          n = length valid
      in if n < 2 \<or> length xs \<noteq> n then NaN
         else (let mean = sum_list xs / real n
               in Fin (sqrt (sum_list (map (\<lambda>x. (x - mean)\<^sup>2) xs) / real (n - 1)))))"

text \<open>
  \<open>Series.cummin\<close> and \<open>Series.min\<close>, both skipping NaN: a NaN entry stays NaN in the
  running minimum, and the minimum of a series without valid entries is NaN.
\<close>

fun cummin_from :: "fval option \<Rightarrow> fval list \<Rightarrow> fval list" where
  "cummin_from m [] = []"
| "cummin_from m (v # vs) =
     (if v = NaN then NaN # cummin_from m vs
      else (let m' = (case m of None \<Rightarrow> v | Some u \<Rightarrow> fmin u v)
            in m' # cummin_from (Some m') vs))"

definition cummin :: "fval list \<Rightarrow> fval list" where
  "cummin vs = cummin_from None vs"

fun cummax_from :: "fval option \<Rightarrow> fval list \<Rightarrow> fval list" where
  "cummax_from m [] = []"
| "cummax_from m (v # vs) =
     (if v = NaN then NaN # cummax_from m vs
      else (let m' = (case m of None \<Rightarrow> v | Some u \<Rightarrow> fmax u v)
            in m' # cummax_from (Some m') vs))"

definition series_min :: "fval list \<Rightarrow> fval" where
  "series_min vs =
     (case filter (\<lambda>v. v \<noteq> NaN) vs of [] \<Rightarrow> NaN | u # us \<Rightarrow> fold fmin us u)"

text \<open>
  The entries of the result dict that depend on the equity column alone and feed the
  Sharpe ratio and the drawdown; the other entries are computed after them from the same
  series and from the trade list.
\<close>

record metrics =
  total_return :: fval
  annualized_return :: fval
  volatility :: fval
  max_drawdown :: fval
  sharpe_ratio :: fval

definition ANNUALIZATION_FACTOR :: real where
  "ANNUALIZATION_FACTOR = 252"

definition RISK_FREE_RATE :: real where
  "RISK_FREE_RATE = 2/100"

text \<open>
  \<open>calculate_advanced_metrics\<close> on the equity column. \<open>iloc[-1]\<close> and \<open>iloc[0]\<close>
  raise on an empty column; the error is logged and raised again.
\<close>

definition calculate_advanced_metrics :: "real list \<Rightarrow> py_error + metrics" where
  "calculate_advanced_metrics equity_col =
     (if equity_col = [] then Inl IndexError
      else (let returns = pct_change equity_col;
                tr = fadd_r (rdiv (last equity_col) (hd equity_col)) (- 1);
                ar = fadd_r (float_pow (fadd_r tr 1) (ANNUALIZATION_FACTOR / real (length returns))) (- 1);
                vol = fmul_r (series_std returns) (sqrt ANNUALIZATION_FACTOR);
                mdd = fabs (series_min (cummin returns));
                sr = (if fpos vol then fdiv (fadd_r ar (- RISK_FREE_RATE)) vol else PInf)
            in Inr \<lparr>total_return = tr, annualized_return = ar, volatility = vol,
                     max_drawdown = mdd, sharpe_ratio = sr\<rparr>))"

text \<open>
  \<open>GridBacktester._calculate_max_drawdown\<close>: \<open>expanding().max()\<close> is the running
  maximum.
\<close>

definition calculate_max_drawdown :: "real list \<Rightarrow> fval" where
  "calculate_max_drawdown equity_col =
     (let rolling_max = cummax_from None (map Fin equity_col);
          drawdowns = map (\<lambda>(e, m). fadd_r (fdiv (Fin e) m) (- 1)) (zip equity_col rolling_max)
      in if length drawdowns > 0 then fabs (series_min drawdowns) else Fin 0)"

text \<open>
  The maximum drawdown in the words of the specification: the absolute value of the
  minimum over the bars of (equity - running maximum) / running maximum.
\<close>

fun running_max :: "real \<Rightarrow> real list \<Rightarrow> real list" where
  "running_max m [] = []"
| "running_max m (x # xs) = max m x # running_max (max m x) xs"

definition spec_max_drawdown :: "real list \<Rightarrow> fval" where
  "spec_max_drawdown equity_col =
     (case equity_col of
        [] \<Rightarrow> NaN
      | x # xs \<Rightarrow>
          fabs (series_min (map (\<lambda>(e, m). rdiv (e - m) m) (zip equity_col (running_max x equity_col)))))"

section \<open>core/backtester.py: Backtester.optimize_strategy\<close>

text \<open>
  The position of a Sharpe ratio in the order of the floats, for the sort: pairs are
  compared lexicographically. NaN has no position: every comparison with it is false, and
  what \<open>list.sort\<close> does with such a key depends on the order of the list and on the
  sorting algorithm.
\<close>

fun sharpe_rank :: "fval \<Rightarrow> (nat \<times> real) option" where
  "sharpe_rank NInf = Some (0, 0)"
| "sharpe_rank (Fin x) = Some (1, x)"
| "sharpe_rank PInf = Some (2, 0)"
| "sharpe_rank NaN = None"

text \<open>
  The parameter combinations: \<open>product(*param_ranges.values())\<close> iterates each range
  dict, which yields its keys, and \<open>dict(zip(param_ranges.keys(), values))\<close> names the
  picks. \<open>product_lists\<close> enumerates in the order of \<open>itertools.product\<close>, the last
  position moving fastest.
\<close>

definition param_combinations :: "(string \<times> (string \<times> 'v) list) list \<Rightarrow> (string \<times> string) list list" where
  "param_combinations param_ranges =
     map (zip (map fst param_ranges)) (product_lists (map (\<lambda>r. map fst (snd r)) param_ranges))"

record opt_result =
  params_r :: "(string \<times> string) list"
  metrics_r :: metrics

text \<open>
  One trial: \<open>build\<close> is \<open>cls(symbol, strategy_name, strategy_params=params)\<close>
  and \<open>run\<close> is \<open>run_backtest\<close> of the instance on the data, reduced to the metrics
  it returns. What a trial appends to \<open>results\<close>: nothing when \<open>run_backtest\<close>
  raised.
\<close>

definition trial_result ::
  "((string \<times> string) list \<Rightarrow> py_error + 'b) \<Rightarrow> ('b \<Rightarrow> py_error + metrics) \<Rightarrow>
   (string \<times> string) list \<Rightarrow> opt_result list" where
  "trial_result build run ps =
     (case bind_err (build ps) run of
        Inl e \<Rightarrow> []
      | Inr m \<Rightarrow> [\<lparr>params_r = ps, metrics_r = m\<rparr>])"

text \<open>
  \<open>results.sort(key=..., reverse=True)\<close> on keys that are all ordered: a stable sort,
  so entries with equal keys keep the order they had in \<open>results\<close>. \<open>keyed\<close> pairs
  every entry with the position of its key and is \<open>None\<close> when a key is NaN; the
  outcome of the sort is then outside this model.
\<close>

definition keyed :: "opt_result list \<Rightarrow> ((nat \<times> real) \<times> opt_result) list option" where
  "keyed results =
     those (map (\<lambda>x. map_option (\<lambda>k. (k, x)) (sharpe_rank (sharpe_ratio (metrics_r x)))) results)"

definition sort_by_sharpe_desc :: "opt_result list \<Rightarrow> opt_result list option" where
  "sort_by_sharpe_desc results =
     map_option (\<lambda>ks. map snd (rev (sort_key fst (rev ks)))) (keyed results)"

text \<open>
  The list \<open>results\<close>: the entries of the trials that did not raise, in the order in
  which \<open>as_completed\<close> hands the futures back. \<open>completion_order\<close> lists the trial
  numbers in that order, which the thread pool decides.
\<close>

definition collect_results ::
  "((string \<times> string) list \<Rightarrow> py_error + 'b) \<Rightarrow> ('b \<Rightarrow> py_error + metrics) \<Rightarrow>
   (string \<times> string) list list \<Rightarrow> nat list \<Rightarrow> opt_result list" where
  "collect_results build run combos completion_order =
     concat (map (\<lambda>i. trial_result build run (combos ! i)) completion_order)"

text \<open>
  \<open>Backtester.optimize_strategy\<close>, from the parameter ranges of the strategy on. The
  instances are constructed while the futures are submitted, in enumeration order, and an
  error there ends the call; \<open>results[0]\<close> raises when every trial failed. The value is
  \<open>None\<close> when a Sharpe ratio among the results is NaN.
\<close>

definition optimize_strategy ::
  "((string \<times> string) list \<Rightarrow> py_error + 'b) \<Rightarrow> ('b \<Rightarrow> py_error + metrics) \<Rightarrow>
   (string \<times> (string \<times> 'v) list) list \<Rightarrow> nat list \<Rightarrow> (py_error + opt_result) option" where
  "optimize_strategy build run param_ranges completion_order =
     (let combos = param_combinations param_ranges
      in case List.find isl (map build combos) of
           Some (Inl e) \<Rightarrow> Some (Inl e)
         | _ \<Rightarrow>
            (case sort_by_sharpe_desc (collect_results build run combos completion_order) of
               None \<Rightarrow> None
             | Some [] \<Rightarrow> Some (Inl IndexError)
             | Some (best # _) \<Rightarrow> Some (Inr best)))"

section \<open>analysis/indicators.py: parallel_process_indicators\<close>

text \<open>\<open>range(0, n, step)\<close> for a positive step.\<close>

definition chunk_starts :: "nat \<Rightarrow> nat \<Rightarrow> nat list" where
  "chunk_starts n step = map (\<lambda>k. k * step) [0..<(n + step - 1) div step]"

text \<open>
  \<open>parallel_process_indicators\<close>, for a given worker count. \<open>calculate_indicators\<close>
  maps the rows of a chunk to the rows with their indicator columns;
  \<open>completion_order\<close> lists the chunk numbers in the order in which the futures
  complete. Dividing by a worker count of 0 raises, and so does \<open>pd.concat\<close> of no
  chunks.
\<close>

definition parallel_process_indicators ::
  "('a list \<Rightarrow> 'b list) \<Rightarrow> nat \<Rightarrow> nat list \<Rightarrow> 'a list \<Rightarrow> py_error + 'b list" where
  "parallel_process_indicators calculate_indicators max_workers completion_order historical_data =
     (if max_workers = 0 then Inl ZeroDivisionError
      else (let n = length historical_data;
                min_chunk_size = 250;
                optimal_chunk_size = max min_chunk_size (n div max_workers);
                chunk_size = optimal_chunk_size + 200;
                chunks = map (\<lambda>i. (i, take (min (i + chunk_size) n - i) (drop i historical_data)))
                           (chunk_starts n optimal_chunk_size);
                processed_chunks =
                  map (\<lambda>chunk_num.
                         (fst (chunks ! chunk_num),
                          (let processed_chunk = calculate_indicators (snd (chunks ! chunk_num))
                           in if chunk_num < length chunks - 1
                              then take optimal_chunk_size processed_chunk
                              else processed_chunk)))
                      completion_order;
                sorted_chunks = sort_key fst processed_chunks
            in if sorted_chunks = [] then Inl (ValueError ''No objects to concatenate'')
               else Inr (concat (map snd sorted_chunks))))"

section \<open>Example inputs\<close>

text \<open>
  A fresh strategy (\<open>GridHedgeStrategy.__init__\<close>) and a fresh backtester
  (\<open>GridBacktester.__init__\<close>) around it, for given parameters.
\<close>

definition GridHedgeStrategy_init :: "strategy_params \<Rightarrow> GridHedgeStrategy" where
  "GridHedgeStrategy_init ps =
     \<lparr>params = ps, heap = [], grid_levels = [], support_levels = [], resistance_levels = [],
      total_profit = 0, trades_history = []\<rparr>"

definition GridBacktester_init :: "strategy_params \<Rightarrow> real \<Rightarrow> real \<Rightarrow> GridBacktester" where
  "GridBacktester_init ps cap rate =
     \<lparr>initial_capital = cap, current_capital = cap, commission_rate = rate,
      strategy = GridHedgeStrategy_init ps, equity_curve = [], trades = [], logged = []\<rparr>"


text \<open>
  A strategy whose grid is one pair, both legs filled: bought at 100, sold at 110.
\<close>

definition filled_pair :: GridHedgeStrategy where
  "filled_pair =
     (GridHedgeStrategy_init default_params)
       \<lparr>heap := [(GridLevel_init 100 BUY 1)
                    \<lparr>paired_level := Some 1, is_filled := True, fill_price := Some 100, fill_time := Some 1\<rparr>,
                 (GridLevel_init 110 SELL 1)
                    \<lparr>paired_level := Some 0, is_filled := True, fill_price := Some 110, fill_time := Some 2\<rparr>],
        grid_levels := [0, 1]\<rparr>"






text \<open>
  An indicator column such as \<open>sma_20\<close>: the mean of the last \<open>window\<close> closes, and of
  the closes there are while the series is still shorter than the window. The closes
  1, 2, ..., 251.
\<close>

definition sma_indicator :: "nat \<Rightarrow> real list \<Rightarrow> real list" where
  "sma_indicator window xs =
     map (\<lambda>i. let w = take (min window (i + 1)) (drop (i + 1 - window) xs)
               in sum_list w / real (length w)) [0..<length xs]"

definition ramp_closes :: "real list" where
  "ramp_closes = map (\<lambda>k. real (k + 1)) [0..<251]"



text \<open>Twenty-one bars at 100 and a last bar that closes at 99.\<close>

definition dip_bars :: "bar list" where
  "dip_bars = map (\<lambda>t. \<lparr>timestamp = t, high = 100, low = 100, close = 100\<rparr>) [0..<21] @
              [\<lparr>timestamp = 21, high = 100, low = 99, close = 99\<rparr>]"


definition class_A :: "nat strategy_class" where
  "class_A = \<lparr>class_name = ''GridStrategy'', inherits_BaseStrategy = True, implementation = 1\<rparr>"

definition class_B :: "nat strategy_class" where
  "class_B = \<lparr>class_name = ''GridStrategy'', inherits_BaseStrategy = True, implementation = 2\<rparr>"

definition registry_A :: "nat registry" where
  "registry_A = Map.empty(''GridStrategy'' \<mapsto> class_A)"

section \<open>Properties of BaseStrategy\<close>

lemma dict_has_update: "dict_has (AList.update k v d) k' = (k' = k \<or> dict_has d k')"
  by (simp add: dict_has_def update_conv')

lemma dict_has_merge: "dict_has (dict_merge d p) k = (dict_has d k \<or> dict_has p k)"
proof -
  have "dict_has (foldl (\<lambda>acc kv. AList.update (fst kv) (snd kv) acc) d p) k
          = (dict_has d k \<or> dict_has p k)" for d
  proof (induction p arbitrary: d)
    case Nil
    then show ?case by (simp add: dict_has_def)
  next
    case (Cons kv p)
    have "dict_has (kv # p) k = (k = fst kv \<or> dict_has p k)"
      by (cases kv) (auto simp: dict_has_def)
    with Cons show ?case by (auto simp: dict_has_update)
  qed
  then show ?thesis by (simp add: dict_merge_def)
qed

lemma map_of_merge_absent:
  "\<not> dict_has p k \<Longrightarrow> map_of (dict_merge d p) k = map_of d k"
proof -
  have "\<not> dict_has p k \<Longrightarrow>
        map_of (foldl (\<lambda>acc kv. AList.update (fst kv) (snd kv) acc) d p) k = map_of d k" for d
  proof (induction p arbitrary: d)
    case Nil
    then show ?case by simp
  next
    case (Cons kv p)
    from Cons.prems have "k \<noteq> fst kv" and "\<not> dict_has p k"
      by (cases kv; auto simp: dict_has_def split: if_splits)+
    with Cons.IH show ?case by (simp add: update_conv')
  qed
  then show "\<not> dict_has p k \<Longrightarrow> ?thesis" by (simp add: dict_merge_def)
qed

lemma validate_defaults_merged:
  "validate_parameters (get_required_parameters d) (dict_merge d p) = Inr ()"
proof -
  have "dict_has d k" if "k \<in> set (map fst d)" for k
    using that by (auto simp: dict_has_def map_of_eq_None_iff)
  then have "list_all (dict_has (dict_merge d p)) (map fst d)"
    by (simp add: list_all_iff dict_has_merge)
  then show ?thesis
    by (simp add: validate_parameters_def get_required_parameters_def)
qed

text \<open>
  C10. For a \<open>BaseStrategy\<close> subclass that keeps the inherited
  \<open>get_required_parameters\<close>, construction succeeds for every override map, the
  omitted one (\<open>None\<close>) and the empty one included: the required names are exactly the
  keys of \<open>default_parameters\<close>, the instance holds the defaults merged with the
  overrides, every required name is present in it, and a name that the overrides omit
  carries its default value. No missing-parameter error is ever raised.
\<close>

theorem BaseStrategy_init_never_missing:
  "get_required_parameters d = map fst d \<and>
   BaseStrategy_init d sy ovr =
     Inr \<lparr>symbol = sy, parameters = dict_merge d (case ovr of None \<Rightarrow> [] | Some p \<Rightarrow> p)\<rparr> \<and>
   (\<forall>s. BaseStrategy_init d sy ovr = Inr s \<longrightarrow>
        list_all (dict_has (parameters s)) (get_required_parameters d) \<and>
        (\<forall>k. \<not> dict_has (case ovr of None \<Rightarrow> [] | Some p \<Rightarrow> p) k \<longrightarrow>
               map_of (parameters s) k = map_of d k))"
proof -
  let ?p = "case ovr of None \<Rightarrow> [] | Some p \<Rightarrow> p"
  have v: "validate_parameters (get_required_parameters d) (dict_merge d ?p) = Inr ()"
    by (rule validate_defaults_merged)
  have i: "BaseStrategy_init d sy ovr = Inr \<lparr>symbol = sy, parameters = dict_merge d ?p\<rparr>"
    by (simp add: BaseStrategy_init_def Let_def v)
  have r: "list_all (dict_has (dict_merge d ?p)) (get_required_parameters d)"
    using v by (simp add: validate_parameters_def split: if_splits)
  show ?thesis
    using i r by (simp add: get_required_parameters_def map_of_merge_absent)
qed

theorem BaseStrategy_init_never_missing_witness:
  "BaseStrategy_init [(''period'', 20::int), (''width'', 2)] ''BTCUSDT'' (Some [(''width'', 3)]) =
     Inr \<lparr>symbol = ''BTCUSDT'', parameters = [(''period'', 20), (''width'', 3)]\<rparr> \<and>
   BaseStrategy_init [(''period'', 20::int), (''width'', 2)] ''BTCUSDT'' (Some []) =
     Inr \<lparr>symbol = ''BTCUSDT'', parameters = [(''period'', 20), (''width'', 2)]\<rparr> \<and>
   map_of [(''period'', 20::int), (''width'', 3)] ''period'' = Some 20"
  using BaseStrategy_init_never_missing
          [of "[(''period'', 20::int), (''width'', 2)]" "''BTCUSDT''" "Some [(''width'', 3)]"]
        BaseStrategy_init_never_missing
          [of "[(''period'', 20::int), (''width'', 2)]" "''BTCUSDT''" "Some []"]
  by (simp add: dict_merge_def)

section \<open>Properties of StrategyRegistry\<close>

text \<open>
  C9, as stated, fails: registering a second implementation under a name that is taken
  does not fail. \<open>register\<close> returns normally and the registry now maps the name to the
  second implementation.
\<close>

theorem register_replaces_counterexample:
  "registry_A ''GridStrategy'' = Some class_A \<and>
   implementation class_B \<noteq> implementation class_A \<and>
   register registry_A class_B = Inr (registry_A(''GridStrategy'' \<mapsto> class_B), class_B)"
  by (simp add: register_def registry_A_def class_A_def class_B_def)

text \<open>
  C9, amended. \<open>register\<close> fails only for a class that does not inherit from
  \<open>BaseStrategy\<close>. For a class that does, it always succeeds and binds the class's
  name to it, replacing whatever was registered under that name; when the same
  implementation is already registered under the name, the registry is unchanged.
\<close>

theorem register_overwrites:
  "(\<not> inherits_BaseStrategy c \<longrightarrow> (\<exists>e. register r c = Inl e)) \<and>
   (inherits_BaseStrategy c \<longrightarrow>
      register r c = Inr (r(class_name c \<mapsto> c), c) \<and>
      (r (class_name c) = Some c \<longrightarrow> r(class_name c \<mapsto> c) = r))"
  by (auto simp: register_def)

theorem register_overwrites_witness:
  "inherits_BaseStrategy class_A \<and> registry_A (class_name class_A) = Some class_A \<and>
   register registry_A class_A = Inr (registry_A, class_A)"
  using register_overwrites [of class_A registry_A]
  by (simp add: registry_A_def class_A_def)

section \<open>Properties of GridBacktester._execute_trade\<close>




section \<open>Properties of the equity curves\<close>

lemma Backtester_simulate_snoc:
  "Backtester_simulate bt (rows @ [r]) = Backtester_step (Backtester_simulate bt rows) r"
  by (simp add: Backtester_simulate_def)

lemma snd_Backtester_step:
  "snd (Backtester_step s r) =
     snd s @ [\<lparr>timestamp_be = timestamp_r r,
               equity_be = capital (fst (Backtester_step s r)) +
                           position (fst (Backtester_step s r)) * close_r r\<rparr>]"
  by (simp add: Backtester_step_def Let_def)

text \<open>
  The first half of C1: \<open>Backtester.run_backtest\<close> appends exactly one equity point per
  row, in row order, and the equity of the point of row \<open>i\<close> is the capital after that
  row plus the position after that row marked to the row's close.
\<close>

lemma Backtester_equity_curve:
  "length (snd (Backtester_simulate bt rows)) = length rows \<and>
   (\<forall>i < length rows.
      snd (Backtester_simulate bt rows) ! i =
        \<lparr>timestamp_be = timestamp_r (rows ! i),
         equity_be = capital (fst (Backtester_simulate bt (take (Suc i) rows))) +
                     position (fst (Backtester_simulate bt (take (Suc i) rows))) * close_r (rows ! i)\<rparr>)"
proof (induction rows rule: rev_induct)
  case Nil
  then show ?case by (simp add: Backtester_simulate_def)
next
  case (snoc r rows)
  let ?s = "Backtester_simulate bt rows"
  have curve: "snd (Backtester_simulate bt (rows @ [r])) =
                 snd ?s @ [\<lparr>timestamp_be = timestamp_r r,
                   equity_be = capital (fst (Backtester_simulate bt (rows @ [r]))) +
                               position (fst (Backtester_simulate bt (rows @ [r]))) * close_r r\<rparr>]"
    by (simp add: Backtester_simulate_snoc snd_Backtester_step)
  from snoc have len: "length (snd ?s) = length rows" by simp
  show ?case
  proof (intro conjI allI impI)
    show "length (snd (Backtester_simulate bt (rows @ [r]))) = length (rows @ [r])"
      using curve len by simp
  next
    fix i assume i: "i < length (rows @ [r])"
    show "snd (Backtester_simulate bt (rows @ [r])) ! i =
            \<lparr>timestamp_be = timestamp_r ((rows @ [r]) ! i),
             equity_be = capital (fst (Backtester_simulate bt (take (Suc i) (rows @ [r])))) +
                         position (fst (Backtester_simulate bt (take (Suc i) (rows @ [r])))) *
                         close_r ((rows @ [r]) ! i)\<rparr>"
    proof (cases "i < length rows")
      case True
      then have "snd (Backtester_simulate bt (rows @ [r])) ! i = snd ?s ! i"
        using curve len by (simp add: nth_append)
      with True snoc show ?thesis by (simp add: nth_append)
    next
      case False
      with i have "i = length rows" by simp
      then show ?thesis using curve len by (simp add: nth_append)
    qed
  qed
qed

text \<open>
  C1 at a failing input. \<open>GridBacktester.run_backtest\<close> on twenty-one bars at 100 and a
  last bar closing at 99, with the default grid and 100000 of capital: on the last bar the
  BUY level at 99.5 is filled (0.01 units at 99), and the equity point of that bar is the
  remaining capital alone, 99999.00901, while capital plus the open position marked to the
  close is 99999.99901.
\<close>

theorem grid_equity_is_capital_only:
  "map_sum id (equity_and_marked_value 99)
     (run_backtest id (GridBacktester_init default_params 100000 (1/1000)) dip_bars) =
   Inr (9999900901 / 100000, 9999999901 / 100000)"
  by code_simp

section \<open>Properties of manage_positions\<close>

text \<open>
  The second branch of \<open>manage_positions\<close> asks \<open>_is_paired_trade_profitable\<close>, which
  computes the profit of the same pair again. With a loss threshold that is not negative
  the branch therefore never closes anything: a pair below the profit threshold is left
  as it is.
\<close>

lemma hedge_unwind_never_closes:
  assumes "calculate_pair_profit (heap st) a = Inr pf"
    and "pf < min_profit_p (params st)"
    and "0 \<le> max_loss_pct_p (params st)"
  shows "manage_level cp now st a = Inr st"
  using assms
  by (auto simp: manage_level_def is_paired_trade_profitable_def bind_err_def Let_def
           split: option.splits)

text \<open>
  C7 at a failing input. One pair, bought at 100 and sold at 110, both legs in the grid,
  profit threshold 0.005: one call of \<open>manage_positions\<close> visits the pair once from
  each leg and closes it both times, so it appends two trade records for the one pair and
  adds the pair's profit to \<open>total_profit\<close> twice.
\<close>

theorem manage_positions_closes_pair_twice:
  "map_sum id (\<lambda>st. (length (trades_history st), total_profit st, map is_active (heap st)))
     (manage_positions 110 9 filled_pair) =
   Inr (2, 2 / 10, [False, False])"
  by code_simp

section \<open>Properties of the grid levels\<close>

lemma paired_level_GridLevel_init [simp]: "paired_level (GridLevel_init p t s) = None"
  by (simp add: GridLevel_init_def)

lemma type_lv_GridLevel_init [simp]: "type_lv (GridLevel_init p t s) = t"
  by (simp add: GridLevel_init_def)

lemma next_unpaired_buy_Some:
  assumes "next_unpaired_buy h = Some b"
  shows "b < length h \<and> type_lv (h ! b) = BUY \<and> paired_level (h ! b) = None"
proof -
  from assms obtain i where i: "i < length (rev [0..<length h])" "rev [0..<length h] ! i = b"
    and P: "type_lv (h ! b) = BUY \<and> paired_level (h ! b) = None"
    unfolding next_unpaired_buy_def by (auto simp: find_Some_iff)
  from i have "b \<in> set (rev [0..<length h])" using nth_mem by blast
  with P show ?thesis by simp
qed

lemma pairing_symmetric_iff:
  "pairing_symmetric h = (\<forall>a < length h. paired_ok h a)"
  by (auto simp: pairing_symmetric_def list_all_iff)

lemma pairing_symmetric_append:
  assumes "pairing_symmetric h" and "paired_level l = None"
  shows "pairing_symmetric (h @ [l])"
proof -
  have "paired_ok (h @ [l]) a" if "a < length (h @ [l])" for a
  proof (cases "a < length h")
    case True
    with assms(1) have "paired_ok h a" by (simp add: pairing_symmetric_iff)
    with True show ?thesis
      by (auto simp: paired_ok_def nth_append split: option.splits)
  next
    case False
    with that have "a = length h" by simp
    with assms(2) show ?thesis by (simp add: paired_ok_def)
  qed
  then show ?thesis by (simp add: pairing_symmetric_iff)
qed

lemma pairing_symmetric_pair_with:
  assumes sym: "pairing_symmetric h"
    and b: "b < length h" "paired_level (h ! b) = None" "type_lv (h ! b) = BUY"
    and s: "s < length h" "paired_level (h ! s) = None" "type_lv (h ! s) = SELL"
  shows "pairing_symmetric (pair_with b s h)"
proof -
  from b s have neq: "b \<noteq> s" by auto
  let ?h = "pair_with b s h"
  have len: "length ?h = length h" by (simp add: pair_with_def Let_def)
  have at_b: "?h ! b = (h ! b)\<lparr>paired_level := Some s\<rparr>"
    using b s neq by (simp add: pair_with_def Let_def)
  have at_s: "?h ! s = (h ! s)\<lparr>paired_level := Some b\<rparr>"
    using b s neq by (simp add: pair_with_def Let_def)
  have other: "?h ! a = h ! a" if "a \<noteq> b" "a \<noteq> s" for a
    using that by (simp add: pair_with_def Let_def)
  have "paired_ok ?h a" if a: "a < length h" for a
  proof -
    consider "a = b" | "a = s" | "a \<noteq> b" "a \<noteq> s" by blast
    then show ?thesis
    proof cases
      case 1
      then show ?thesis using b s at_b at_s by (simp add: paired_ok_def len)
    next
      case 2
      then show ?thesis using b s at_b at_s by (simp add: paired_ok_def len)
    next
      case 3
      from sym a have ok: "paired_ok h a" by (simp add: pairing_symmetric_iff)
      show ?thesis
      proof (cases "paired_level (h ! a)")
        case None
        with 3 show ?thesis by (simp add: paired_ok_def other)
      next
        case (Some c)
        with ok have c: "c < length h" "paired_level (h ! c) = Some a"
          "type_lv (h ! a) \<noteq> type_lv (h ! c)"
          by (simp_all add: paired_ok_def)
        with b s have "c \<noteq> b" "c \<noteq> s" by auto
        with 3 Some c show ?thesis by (simp add: paired_ok_def other len)
      qed
    qed
  qed
  then show ?thesis by (simp add: pairing_symmetric_iff len)
qed

lemma grid_level_step_symmetric:
  assumes "pairing_symmetric h"
  shows "pairing_symmetric (grid_level_step ps cp h i)"
proof -
  define pr where "pr = cp - cp * grid_spacing_p ps * real_of_int (grid_levels_p ps) / 2
                         + real i * cp * grid_spacing_p ps"
  define sz where "sz = base_order_size_p ps * (1 + real (i div 2) * (size_multiplier_p ps - 1))"
  define h1 where "h1 = (if pr < cp then h @ [GridLevel_init pr BUY sz] else h)"
  define h2 where "h2 = h1 @ [GridLevel_init pr SELL sz]"
  have s1: "pairing_symmetric h1"
    using assms by (simp add: h1_def pairing_symmetric_append)
  have s2: "pairing_symmetric h2"
    using s1 by (simp add: h2_def pairing_symmetric_append)
  have paired: "pairing_symmetric (pair_with b (length h1) h2)" if "next_unpaired_buy h2 = Some b" for b
  proof -
    from next_unpaired_buy_Some [OF that]
    have "b < length h2" "paired_level (h2 ! b) = None" "type_lv (h2 ! b) = BUY" by simp_all
    moreover have "length h1 < length h2" "paired_level (h2 ! length h1) = None"
      "type_lv (h2 ! length h1) = SELL"
      by (simp_all add: h2_def)
    ultimately show ?thesis using s2 by (intro pairing_symmetric_pair_with)
  qed
  have "grid_level_step ps cp h i =
          (if pr > cp
           then (if length h2 \<ge> 2
                 then (case next_unpaired_buy h2 of None \<Rightarrow> h2 | Some b \<Rightarrow> pair_with b (length h1) h2)
                 else h2)
           else h1)"
    unfolding grid_level_step_def Let_def pr_def sz_def h1_def h2_def by (rule refl)
  then show ?thesis
    using s1 s2 paired by (auto split: option.splits)
qed

lemma foldl_grid_level_step_symmetric:
  "pairing_symmetric h \<Longrightarrow> pairing_symmetric (foldl (grid_level_step ps cp) h is)"
  by (induction "is" arbitrary: h) (simp_all add: grid_level_step_symmetric)

text \<open>
  C8. For every parameter set and every current price, pairing in the list returned by
  \<open>calculate_grid_levels\<close> is symmetric: whenever level \<open>A\<close> has
  \<open>paired_level = B\<close>, level \<open>B\<close> is in the list, has \<open>paired_level = A\<close>, and the two
  are one BUY and one SELL level.
\<close>

theorem calculate_grid_levels_pairing_symmetric:
  "\<forall>a b. a < length (calculate_grid_levels ps cp) \<and>
          paired_level (calculate_grid_levels ps cp ! a) = Some b \<longrightarrow>
          b < length (calculate_grid_levels ps cp) \<and>
          paired_level (calculate_grid_levels ps cp ! b) = Some a \<and>
          type_lv (calculate_grid_levels ps cp ! a) \<noteq> type_lv (calculate_grid_levels ps cp ! b)"
proof -
  have "pairing_symmetric []" by (simp add: pairing_symmetric_def)
  then have "pairing_symmetric (calculate_grid_levels ps cp)"
    unfolding calculate_grid_levels_def by (rule foldl_grid_level_step_symmetric)
  then show ?thesis
    by (auto simp: pairing_symmetric_iff paired_ok_def split: option.splits)
qed

theorem calculate_grid_levels_pairing_symmetric_witness:
  "2 < length (calculate_grid_levels default_params 100) \<and>
   paired_level (calculate_grid_levels default_params 100 ! 2) = Some 3 \<and>
   paired_level (calculate_grid_levels default_params 100 ! 3) = Some 2 \<and>
   type_lv (calculate_grid_levels default_params 100 ! 2) \<noteq>
     type_lv (calculate_grid_levels default_params 100 ! 3)"
proof -
  have h: "2 < length (calculate_grid_levels default_params 100) \<and>
           paired_level (calculate_grid_levels default_params 100 ! 2) = Some 3"
    by code_simp
  show ?thesis
    using h calculate_grid_levels_pairing_symmetric [of default_params 100] by blast
qed

section \<open>Properties of the metrics\<close>

lemma pct_change_from_flat:
  "pct_change_from c (replicate k c) = replicate k (if c = 0 then NaN else Fin 0)"
  by (induction k) (simp_all add: rdiv_def)

lemma series_std_zeros:
  "series_std (NaN # replicate k (Fin 0)) = (if k < 2 then NaN else Fin 0)"
proof -
  have f: "filter (\<lambda>v. v \<noteq> NaN) (replicate k (Fin 0)) = replicate k (Fin 0)"
    by (induction k) simp_all
  have v: "finite_values (replicate k (Fin 0)) = replicate k 0"
    by (induction k) (simp_all add: finite_values_def)
  have s: "sum_list (replicate k (0::real)) = 0"
    by (induction k) simp_all
  have q: "sum_list (map (\<lambda>x. x\<^sup>2) (replicate k (0::real))) = 0"
    by (induction k) simp_all
  show ?thesis
    by (simp add: series_std_def Let_def f v s q)
qed

lemma series_std_nans: "series_std (NaN # replicate k NaN) = NaN"
proof -
  have f: "filter (\<lambda>v. v \<noteq> NaN) (replicate k NaN) = []"
    by (induction k) simp_all
  show ?thesis
    by (simp add: series_std_def Let_def f finite_values_def)
qed

lemma volatility_flat:
  "\<not> fpos (fmul_r (series_std (pct_change (replicate (Suc k) c))) r)"
  by (simp add: pct_change_def pct_change_from_flat series_std_zeros series_std_nans)

text \<open>
  C3, as stated, fails: for the flat equity curve 100, 100, 100 the returned Sharpe ratio
  is plus infinity, not 0, and for an empty equity column no Sharpe ratio is returned at
  all, the call raises.
\<close>

theorem sharpe_flat_counterexample:
  "map_sum id sharpe_ratio (calculate_advanced_metrics [100, 100, 100]) = Inr PInf \<and>
   calculate_advanced_metrics [] = Inl IndexError"
  by (simp add: calculate_advanced_metrics_def Let_def pct_change_def series_std_def rdiv_def
        finite_values_def)

text \<open>
  C3, amended. \<open>calculate_advanced_metrics\<close> returns a Sharpe ratio of plus infinity
  whenever the volatility is not greater than 0 (exactly 0, or NaN); in particular, for
  every perfectly flat equity curve with at least one point the call returns normally and
  the Sharpe ratio is plus infinity, neither 0 nor NaN.
\<close>

theorem sharpe_flat_is_infinite:
  "(0 < n \<longrightarrow>
      map_sum id sharpe_ratio (calculate_advanced_metrics (replicate n c)) = Inr PInf) \<and>
   (\<forall>m. calculate_advanced_metrics equity_col = Inr m \<and> \<not> fpos (volatility m) \<longrightarrow>
      sharpe_ratio m = PInf)"
proof (intro conjI impI allI)
  assume "0 < n"
  then obtain k where n: "n = Suc k" by (cases n) auto
  have "replicate (Suc k) c \<noteq> []" by simp
  then show "map_sum id sharpe_ratio (calculate_advanced_metrics (replicate n c)) = Inr PInf"
    unfolding n calculate_advanced_metrics_def Let_def
    using volatility_flat [of k c "sqrt ANNUALIZATION_FACTOR"] by simp
next
  fix m
  assume "calculate_advanced_metrics equity_col = Inr m \<and> \<not> fpos (volatility m)"
  then show "sharpe_ratio m = PInf"
    by (auto simp: calculate_advanced_metrics_def Let_def split: if_splits)
qed

theorem sharpe_flat_is_infinite_witness:
  "(0::nat) < 3 \<and> map_sum id sharpe_ratio (calculate_advanced_metrics [100, 100, 100]) = Inr PInf"
  using sharpe_flat_is_infinite [of 3 100] by (simp add: numeral_3_eq_3)

text \<open>
  \<open>GridBacktester._calculate_max_drawdown\<close> does compute the drawdown of the
  specification, for every equity curve that starts above 0.
\<close>

lemma cummax_from_Fin:
  "cummax_from (Some (Fin m)) (map Fin xs) = map Fin (running_max m xs)"
  by (induction xs arbitrary: m) (simp_all add: fmax_def max_def)

lemma grid_max_drawdown_matches_spec:
  assumes "equity_col \<noteq> []" and "0 < hd equity_col"
  shows "calculate_max_drawdown equity_col = spec_max_drawdown equity_col"
proof -
  from assms obtain x xs where eq: "equity_col = x # xs" and x: "0 < x"
    by (cases equity_col) auto
  have cm: "cummax_from None (map Fin (x # xs)) = map Fin (running_max x (x # xs))"
    using cummax_from_Fin [of x xs] by simp
  have "map (\<lambda>(e, m). fadd_r (fdiv (Fin e) m) (- 1)) (zip ys (map Fin (running_max m0 ys)))
        = map (\<lambda>(e, m). rdiv (e - m) m) (zip ys (running_max m0 ys))" if "0 < m0" for ys m0
    using that
  proof (induction ys arbitrary: m0)
    case Nil
    then show ?case by simp
  next
    case (Cons y ys)
    have "0 < max m0 y" using Cons.prems by (simp add: max_def)
    with Cons.IH [of "max m0 y"] show ?case
      by (simp add: rdiv_def diff_divide_distrib)
  qed
  from this [OF x, of "x # xs"] show ?thesis
    unfolding eq calculate_max_drawdown_def spec_max_drawdown_def Let_def cm
    by simp
qed

text \<open>
  C4 at a failing input. For the equity curve 100, 90, 81 the largest peak-to-trough
  decline is 19 percent, which is what \<open>GridBacktester._calculate_max_drawdown\<close>
  returns, while \<open>max_drawdown\<close> of \<open>calculate_advanced_metrics\<close> is 10 percent:
  the absolute value of the smallest single-period return.
\<close>

theorem metrics_max_drawdown_is_worst_return:
  "map_sum id max_drawdown (calculate_advanced_metrics [100, 90, 81]) = Inr (Fin (1/10)) \<and>
   spec_max_drawdown [100, 90, 81] = Fin (19/100) \<and>
   calculate_max_drawdown [100, 90, 81] = Fin (19/100)"
  by (simp add: calculate_advanced_metrics_def Let_def pct_change_def cummin_def series_min_def
        fmin_def fmax_def rdiv_def spec_max_drawdown_def calculate_max_drawdown_def)

section \<open>Properties of parallel_process_indicators\<close>

text \<open>
  With a single chunk the result is the sequential computation. With two chunks the second
  one starts at its own first bar: the 200 extra rows are appended after each chunk and cut
  off again, so no chunk sees the bars before it.
\<close>

lemma single_chunk:
  assumes "0 < length xs" and "0 < max_workers"
    and "length xs \<le> max 250 (length xs div max_workers)"
  shows "parallel_process_indicators calc max_workers [0] xs = Inr (calc xs)"
proof -
  let ?opt = "max 250 (length xs div max_workers)"
  have "(length xs + ?opt - 1) div ?opt = 1"
  proof -
    have "?opt \<le> length xs + ?opt - 1" using assms(1) by linarith
    moreover have "length xs + ?opt - 1 < 2 * ?opt" using assms(3) by linarith
    ultimately show ?thesis
      by (metis One_nat_def Suc_1 div_nat_eqI mult.commute mult_Suc nat_mult_1_right)
  qed
  then have cs: "chunk_starts (length xs) ?opt = [0]"
    by (simp add: chunk_starts_def)
  have t: "min (?opt + 200) (length xs) = length xs"
    using assms(3) by linarith
  show ?thesis
    using assms(2) by (simp add: parallel_process_indicators_def Let_def cs t)
qed

lemma chunk_starts_two:
  assumes "250 < n" "n \<le> 450"
  shows "chunk_starts n 250 = [0, 250]"
proof -
  from assms have "(n + 250 - 1) div 250 = 2" by linarith
  then show ?thesis
    by (simp add: chunk_starts_def upt_rec [of 0] upt_rec [of 1] upt_rec [of "Suc 0"] numeral_2_eq_2)
qed

lemma two_chunks:
  assumes n: "250 < length xs" "length xs \<le> 450"
    and w: "0 < max_workers" "length xs div max_workers \<le> 250"
    and len: "length (calc xs) = length xs"
    and ord: "completion_order = [0, 1] \<or> completion_order = [1, 0]"
  shows "parallel_process_indicators calc max_workers completion_order xs =
           Inr (take 250 (calc xs) @ calc (drop 250 xs))"
proof -
  have opt: "max 250 (length xs div max_workers) = 250" using w by simp
  have cs: "chunk_starts (length xs) 250 = [0, 250]" using n by (rule chunk_starts_two)
  have t0: "min 450 (length xs) = length xs" using n by simp
  have t1: "min 700 (length xs) = length xs" using n by simp
  from ord show ?thesis
  proof
    assume "completion_order = [0, 1]"
    then show ?thesis
      using w(1) by (simp add: parallel_process_indicators_def Let_def opt cs t0 t1)
  next
    assume "completion_order = [1, 0]"
    then show ?thesis
      using w(1) by (simp add: parallel_process_indicators_def Let_def opt cs t0 t1)
  qed
qed

lemma length_sma_indicator: "length (sma_indicator w xs) = length xs"
  by (simp add: sma_indicator_def)

lemma length_ramp_closes: "length ramp_closes = 251"
  by (simp add: ramp_closes_def)

lemma drop_ramp_250: "drop 250 ramp_closes = [251]"
proof -
  have "[250..<251] = [250::nat]" by (simp add: upt_rec)
  then show ?thesis by (simp add: ramp_closes_def drop_map)
qed

lemma sma_single: "sma_indicator 20 [x] = [x]"
  by (simp add: sma_indicator_def)

lemma ramp_window_sum: "sum_list (map (\<lambda>k. real (k + 1)) [231..<251]) = 4830"
  by code_simp

lemma sma_ramp_250: "sma_indicator 20 ramp_closes ! 250 = 483 / 2"
proof -
  have d: "take 20 (drop 231 ramp_closes) = map (\<lambda>k. real (k + 1)) [231..<251]"
    by (simp add: ramp_closes_def drop_map)
  have "sma_indicator 20 ramp_closes ! 250 =
          (let w = take (min 20 (250 + 1)) (drop (250 + 1 - 20) ramp_closes)
           in sum_list w / real (length w))"
    unfolding sma_indicator_def by (simp add: length_ramp_closes)
  also have "\<dots> = 4830 / 20"
    by (simp add: Let_def d ramp_window_sum)
  finally show ?thesis by simp
qed

text \<open>
  C5 at a failing input. 251 bars with closes 1, 2, ..., 251, two workers, a 20-bar moving
  average: the chunks start at bars 0 and 250, and the value for bar 250, far beyond the
  warm-up window, is computed from that bar alone. The chunked run gives 251 there, the
  sequential run gives 241.5.
\<close>

theorem chunked_sma_differs:
  "map_sum id (\<lambda>r. r ! 250) (parallel_process_indicators (sma_indicator 20) 2 [1, 0] ramp_closes) = Inr 251 \<and>
   sma_indicator 20 ramp_closes ! 250 = 483 / 2"
proof -
  have "parallel_process_indicators (sma_indicator 20) 2 [1, 0] ramp_closes =
          Inr (take 250 (sma_indicator 20 ramp_closes) @ sma_indicator 20 (drop 250 ramp_closes))"
    by (rule two_chunks) (simp_all add: length_ramp_closes length_sma_indicator)
  moreover have "(take 250 (sma_indicator 20 ramp_closes) @ sma_indicator 20 (drop 250 ramp_closes)) ! 250 = 251"
    by (simp add: nth_append length_sma_indicator length_ramp_closes drop_ramp_250 sma_single)
  ultimately show ?thesis by (simp add: sma_ramp_250)
qed

section \<open>Properties of Backtester.optimize_strategy\<close>







lemma keyed_eq:
  "keyed results =
     (if \<forall>x \<in> set results. sharpe_rank (sharpe_ratio (metrics_r x)) \<noteq> None
      then Some (map (\<lambda>x. (the (sharpe_rank (sharpe_ratio (metrics_r x))), x)) results)
      else None)"
  unfolding keyed_def by (induction results) (auto split: option.splits)


lemma sort_by_sharpe_desc_defined:
  assumes "\<forall>x \<in> set results. sharpe_rank (sharpe_ratio (metrics_r x)) \<noteq> None"
  shows "\<exists>s. sort_by_sharpe_desc results = Some s \<and> length s = length results"
  using assms by (simp add: sort_by_sharpe_desc_def keyed_eq)




text \<open>
  A run in which no Sharpe ratio among the results is NaN is inside the model.
\<close>

lemma optimize_strategy_defined:
  assumes "\<forall>x \<in> set (collect_results build run (param_combinations param_ranges) order).
             sharpe_ratio (metrics_r x) \<noteq> NaN"
  shows "optimize_strategy build run param_ranges order \<noteq> None"
proof -
  have "sharpe_rank v \<noteq> None" if "v \<noteq> NaN" for v
    using that by (cases v) simp_all
  with assms have "\<forall>x \<in> set (collect_results build run (param_combinations param_ranges) order).
                     sharpe_rank (sharpe_ratio (metrics_r x)) \<noteq> None" by blast
  from sort_by_sharpe_desc_defined [OF this] obtain s where
    "sort_by_sharpe_desc (collect_results build run (param_combinations param_ranges) order) = Some s"
    by blast
  then show ?thesis
    by (simp add: optimize_strategy_def Let_def split: option.splits sum.splits list.splits)
qed



end
